theory Spec2Isabelle
  imports
    Complex_Main
    "HOL-Library.AList"
    "HOL-Library.List_Lexorder"
    "HOL-Library.Char_ord"
begin

section \<open>Form-field geometry of a PDF (getfields.py)\<close>

text \<open>
  The module reads a PDF through PyPDF2 and reports one record per form field. PyPDF2 is an
  external collaborator: the model starts from what its reader hands over (the field
  dictionary, the pages, their media boxes and annotation dictionaries) and follows the
  module's own code from there.

  The entries \<open>/T\<close> and \<open>/FT\<close> are strings when present, \<open>/Rect\<close> is an array when
  present, and a media box holds four numbers. An exception inside the \<open>try\<close> block is
  a value \<open>Inl\<close> of the body; three places raise in the model: opening the file, an
  annotation reference that does not resolve to a dictionary, and \<open>float\<close> on a rect
  entry out of range.

  Python floats are idealised as \<open>real\<close>: the subtraction of the source is the subtraction
  of the model, and the built-in \<open>round(\<cdot>, 3)\<close>, which the module only calls, is the
  parameter \<open>rnd\<close> of every function that rounds. A Python value that may be \<open>None\<close> is
  an \<open>option\<close>; a dictionary is an association list in insertion order.
\<close>

subsection \<open>Values read from the document\<close>

text \<open>
  An entry of a \<open>/Rect\<close> array, as \<open>_as_float\<close> sees it: \<open>Numeric r\<close> when
  \<open>float(value)\<close> returns \<open>r\<close>, \<open>NonNumeric\<close> when it raises TypeError or ValueError,
  \<open>OutOfRange\<close> when it raises another exception (OverflowError, for an integer beyond
  the range of a float), which \<open>_as_float\<close> does not catch.
\<close>

datatype coord = Numeric real | NonNumeric | OutOfRange

text \<open>
  A field, annotation or parent dictionary, by the three entries the module reads with
  \<open>.get\<close>: \<open>/T\<close> and \<open>/FT\<close> (a text string or a name object when present) and \<open>/Rect\<close>
  (an array when present). An annotation also has \<open>/Parent\<close>: \<open>Some p\<close> when the entry
  resolves to a (non-empty, hence truthy) dictionary \<open>p\<close>.
\<close>

record pdf_dict =
  entry_T :: "string option"
  entry_Rect :: "coord list option"
  entry_FT :: "string option"

record annotation = pdf_dict +
  entry_Parent :: "pdf_dict option"

text \<open>
  An element of a page's \<open>/Annots\<close> array: \<open>get_object()\<close> gives an annotation dictionary,
  or (a dangling reference) an object without \<open>.get\<close>, on which line 126 raises.
\<close>

datatype annotation_ref = Resolves annotation | Dangling

record mediabox =
  mb_left :: real
  mb_bottom :: real
  mb_right :: real
  mb_top :: real

record page =
  page_mediabox :: mediabox
  page_Annots :: "annotation_ref list"

record reader =
  get_fields :: "(string \<times> pdf_dict) list option"
  pages :: "page list"

text \<open>
  What \<open>open\<close> and \<open>PdfReader\<close> do with the path: the file is missing, reading it fails
  otherwise, or a reader is returned.
\<close>

datatype source = Missing | Unreadable | Opened reader

datatype error = FileNotFoundError | OtherException

subsection \<open>Helpers (lines 9 to 92)\<close>

definition FIELD_TYPE_MAP :: "(string \<times> string) list" where
  "FIELD_TYPE_MAP =
     [(''Tx'', ''text''), (''Sig'', ''signature''), (''Btn'', ''check''),
      (''Ch'', ''choice''), (''Rd'', ''radio'')]"

definition as_float :: "coord \<Rightarrow> error + real option" where
  "as_float v =
     (case v of
        Numeric r \<Rightarrow> Inr (Some r)
      | NonNumeric \<Rightarrow> Inr None
      | OutOfRange \<Rightarrow> Inl OtherException)"

definition normalise_name :: "string option \<Rightarrow> string option" where
  "normalise_name v =
     (case v of
        None \<Rightarrow> None
      | Some txt \<Rightarrow> Some (if take 1 txt = ''/'' then drop 1 txt else txt))"

definition format_number :: "(real \<Rightarrow> real) \<Rightarrow> real option \<Rightarrow> real option" where
  "format_number rnd v = (case v of None \<Rightarrow> None | Some r \<Rightarrow> Some (rnd r))"

record point =
  pt_x :: "real option"
  pt_y :: "real option"

record rect_info =
  top_left :: point
  top_right :: point
  bottom_left :: point
  bottom_right :: point
  ri_width :: "real option"
  ri_height :: "real option"

record size_dict =
  sz_width :: "real option"
  sz_height :: "real option"

text \<open>Truthiness of a value that is \<open>None\<close>, a string or an array; Python's \<open>a or b\<close>.\<close>

definition truthy :: "'a list option \<Rightarrow> bool" where
  "truthy v = (case v of None \<Rightarrow> False | Some xs \<Rightarrow> xs \<noteq> [])"

definition py_or :: "'a list option \<Rightarrow> 'a list option \<Rightarrow> 'a list option" where
  "py_or a b = (if truthy a then a else b)"

definition null_rect_info :: rect_info where
  "null_rect_info =
     \<lparr>top_left = \<lparr>pt_x = None, pt_y = None\<rparr>,
      top_right = \<lparr>pt_x = None, pt_y = None\<rparr>,
      bottom_left = \<lparr>pt_x = None, pt_y = None\<rparr>,
      bottom_right = \<lparr>pt_x = None, pt_y = None\<rparr>,
      ri_width = None,
      ri_height = None\<rparr>"

text \<open>Lines 50 to 65: the dictionary built from the four converted entries.\<close>

definition rect_info_of ::
  "real option \<Rightarrow> real option \<Rightarrow> real option \<Rightarrow> real option \<Rightarrow> rect_info" where
  "rect_info_of x_left y_bottom x_right y_top =
     \<lparr>top_left = \<lparr>pt_x = x_left, pt_y = y_top\<rparr>,
      top_right = \<lparr>pt_x = x_right, pt_y = y_top\<rparr>,
      bottom_left = \<lparr>pt_x = x_left, pt_y = y_bottom\<rparr>,
      bottom_right = \<lparr>pt_x = x_right, pt_y = y_bottom\<rparr>,
      ri_width = (case (x_right, x_left) of (Some r, Some l) \<Rightarrow> Some (r - l) | _ \<Rightarrow> None),
      ri_height = (case (y_top, y_bottom) of (Some t, Some b) \<Rightarrow> Some (t - b) | _ \<Rightarrow> None)\<rparr>"

text \<open>
  Lines 34 to 48: the four entries are converted in the order left, bottom, right, top;
  the first conversion that raises ends the call.
\<close>

definition resolve_rect :: "coord list option \<Rightarrow> error + rect_info" where
  "resolve_rect rect =
     (case rect of
        None \<Rightarrow> Inr null_rect_info
      | Some entries \<Rightarrow>
          if entries = [] \<or> length entries \<noteq> 4 then Inr null_rect_info
          else
            (case as_float (entries ! 0) of
               Inl e \<Rightarrow> Inl e
             | Inr x_left \<Rightarrow>
                 (case as_float (entries ! 1) of
                    Inl e \<Rightarrow> Inl e
                  | Inr y_bottom \<Rightarrow>
                      (case as_float (entries ! 2) of
                         Inl e \<Rightarrow> Inl e
                       | Inr x_right \<Rightarrow>
                           (case as_float (entries ! 3) of
                              Inl e \<Rightarrow> Inl e
                            | Inr y_top \<Rightarrow> Inr (rect_info_of x_left y_bottom x_right y_top))))))"

definition round_point :: "(real \<Rightarrow> real) \<Rightarrow> point option \<Rightarrow> point option" where
  "round_point rnd p =
     (case p of
        None \<Rightarrow> None
      | Some pt \<Rightarrow> Some \<lparr>pt_x = format_number rnd (pt_x pt), pt_y = format_number rnd (pt_y pt)\<rparr>)"

definition round_size :: "(real \<Rightarrow> real) \<Rightarrow> size_dict option \<Rightarrow> size_dict option" where
  "round_size rnd s =
     (case s of
        None \<Rightarrow> None
      | Some sz \<Rightarrow>
          Some \<lparr>sz_width = format_number rnd (sz_width sz),
                sz_height = format_number rnd (sz_height sz)\<rparr>)"

definition round_corner :: "(real \<Rightarrow> real) \<Rightarrow> point \<Rightarrow> point" where
  "round_corner rnd pt = \<lparr>pt_x = format_number rnd (pt_x pt), pt_y = format_number rnd (pt_y pt)\<rparr>"

definition round_box_dict :: "(real \<Rightarrow> real) \<Rightarrow> rect_info option \<Rightarrow> rect_info option" where
  "round_box_dict rnd box =
     (case box of
        None \<Rightarrow> None
      | Some b \<Rightarrow>
          Some \<lparr>top_left = round_corner rnd (top_left b),
                top_right = round_corner rnd (top_right b),
                bottom_left = round_corner rnd (bottom_left b),
                bottom_right = round_corner rnd (bottom_right b),
                ri_width = format_number rnd (ri_width b),
                ri_height = format_number rnd (ri_height b)\<rparr>)"

subsection \<open>The state of the pass over the pages (lines 109 to 112)\<close>

record flutter_config =
  pageIndex :: int
  fc_x :: "real option"
  fc_y :: "real option"
  fc_width :: "real option"
  fc_height :: "real option"
  positionUnit :: string
  sizeUnit :: string

record widget =
  w_page :: "int option"
  w_boundingBox :: "rect_info option"
  w_position :: "point option"
  w_size :: "size_dict option"
  w_flutterConfig :: "flutter_config option"

record state =
  widgets_by_field :: "(string \<times> widget list) list"
  field_types :: "(string \<times> string option) list"
  page_metrics :: "(int \<times> size_dict) list"

definition initial_state :: state where
  "initial_state = \<lparr>widgets_by_field = [], field_types = [], page_metrics = []\<rparr>"

record field_record =
  fr_name :: string
  fr_field_type :: "string option"
  fr_page :: "int option"
  fr_page_size :: "size_dict option"
  fr_bounding_box :: "rect_info option"
  fr_position :: "point option"
  fr_size :: "size_dict option"

text \<open>
  The headline the function prints; the per-field summary lines are display only and are
  left out of the model.
\<close>

datatype notice = NoPagesNotice | FoundFieldsNotice | NotFoundNotice | UnexpectedNotice

subsection \<open>One annotation (lines 125 to 170)\<close>

text \<open>Line 129: the name object; line 134: the effective rect.\<close>

definition name_obj_of :: "annotation \<Rightarrow> string option" where
  "name_obj_of annotation =
     py_or (entry_T annotation)
       (case entry_Parent annotation of Some parent \<Rightarrow> entry_T parent | None \<Rightarrow> None)"

definition rect_of :: "annotation \<Rightarrow> coord list option" where
  "rect_of annotation =
     py_or (entry_Rect annotation)
       (case entry_Parent annotation of Some parent \<Rightarrow> entry_Rect parent | None \<Rightarrow> None)"

text \<open>Lines 142 to 144: the value stored in \<open>field_types[field_name]\<close>.\<close>

definition type_code_of ::
  "(string \<times> pdf_dict) list \<Rightarrow> string \<Rightarrow> annotation \<Rightarrow> string option" where
  "type_code_of field_definitions field_name annotation =
     normalise_name
       (py_or
          (case entry_Parent annotation of
             Some parent \<Rightarrow> entry_FT parent
           | None \<Rightarrow> entry_FT annotation)
          (case map_of field_definitions field_name of
             None \<Rightarrow> None
           | Some d \<Rightarrow> entry_FT d))"

text \<open>
  Lines 136 to 140 and 147 to 169: the dictionary appended for the annotation, from the
  effective rect and the RectInfo resolved from it on line 135.
\<close>

definition make_widget ::
  "(real \<Rightarrow> real) \<Rightarrow> int \<Rightarrow> real option \<Rightarrow> coord list option \<Rightarrow> rect_info \<Rightarrow> widget" where
  "make_widget rnd page_index page_height rect rect_info =
     (let bottom_left_pt = bottom_left rect_info;
          top_left_pt = top_left rect_info;
          width = ri_width rect_info;
          height = ri_height rect_info
      in \<lparr>w_page = Some page_index,
          w_boundingBox = (if truthy rect then Some rect_info else None),
          w_position = (if truthy rect then Some bottom_left_pt else None),
          w_size = (if truthy rect then Some \<lparr>sz_width = width, sz_height = height\<rparr> else None),
          w_flutterConfig =
            (if truthy rect \<and> page_height \<noteq> None
             then Some
               \<lparr>pageIndex = page_index - 1,
                fc_x = format_number rnd (pt_x bottom_left_pt),
                fc_y =
                  (case (pt_y top_left_pt, page_height) of
                     (Some ty, Some h) \<Rightarrow> format_number rnd (Some (h - ty))
                   | _ \<Rightarrow> None),
                fc_width = format_number rnd width,
                fc_height = format_number rnd height,
                positionUnit = ''points'',
                sizeUnit = ''points''\<rparr>
             else None)\<rparr>)"

definition widgets_of :: "state \<Rightarrow> string \<Rightarrow> widget list" where
  "widgets_of st field_name =
     (case map_of (widgets_by_field st) field_name of None \<Rightarrow> [] | Some ws \<Rightarrow> ws)"

definition process_annotation ::
  "(real \<Rightarrow> real) \<Rightarrow> (string \<times> pdf_dict) list \<Rightarrow> int \<Rightarrow> real option \<Rightarrow> state \<Rightarrow>
   annotation_ref \<Rightarrow> error + state" where
  "process_annotation rnd field_definitions page_index page_height st annotation_ref =
     (case annotation_ref of
        Dangling \<Rightarrow> Inl OtherException
      | Resolves annotation \<Rightarrow>
          (case normalise_name (name_obj_of annotation) of
             None \<Rightarrow> Inr st
           | Some field_name \<Rightarrow>
               (case resolve_rect (rect_of annotation) of
                  Inl e \<Rightarrow> Inl e
                | Inr rect_info \<Rightarrow>
                    Inr (st\<lparr>field_types :=
                               AList.update field_name
                                 (type_code_of field_definitions field_name annotation)
                                 (field_types st),
                             widgets_by_field :=
                               AList.update field_name
                                 (widgets_of st field_name
                                    @ [make_widget rnd page_index page_height
                                         (rect_of annotation) rect_info])
                                 (widgets_by_field st)\<rparr>))))"

fun annotations_loop ::
  "(real \<Rightarrow> real) \<Rightarrow> (string \<times> pdf_dict) list \<Rightarrow> int \<Rightarrow> real option \<Rightarrow> state \<Rightarrow>
   annotation_ref list \<Rightarrow> error + state" where
  "annotations_loop rnd field_definitions page_index page_height st [] = Inr st"
| "annotations_loop rnd field_definitions page_index page_height st (annotation_ref # rest) =
     (case process_annotation rnd field_definitions page_index page_height st annotation_ref of
        Inl e \<Rightarrow> Inl e
      | Inr st' \<Rightarrow> annotations_loop rnd field_definitions page_index page_height st' rest)"

subsection \<open>One page, and all pages (lines 114 to 122)\<close>

definition metrics_of :: "page \<Rightarrow> size_dict" where
  "metrics_of pg =
     (let mediabox = page_mediabox pg;
          width = mb_right mediabox - mb_left mediabox;
          height = mb_top mediabox - mb_bottom mediabox
      in \<lparr>sz_width = Some width, sz_height = Some height\<rparr>)"

definition process_page ::
  "(real \<Rightarrow> real) \<Rightarrow> (string \<times> pdf_dict) list \<Rightarrow> state \<Rightarrow> int \<Rightarrow> page \<Rightarrow> error + state" where
  "process_page rnd field_definitions st page_index pg =
     (let st1 = st\<lparr>page_metrics := AList.update page_index (metrics_of pg) (page_metrics st)\<rparr>;
          annotations = page_Annots pg
      in if annotations = [] then Inr st1
         else annotations_loop rnd field_definitions page_index
                (sz_height (metrics_of pg)) st1 annotations)"

text \<open>\<open>enumerate(reader.pages, start=1)\<close>: the caller starts \<open>page_index\<close> at 1.\<close>

fun pages_loop ::
  "(real \<Rightarrow> real) \<Rightarrow> (string \<times> pdf_dict) list \<Rightarrow> state \<Rightarrow> int \<Rightarrow> page list \<Rightarrow> error + state" where
  "pages_loop rnd field_definitions st page_index [] = Inr st"
| "pages_loop rnd field_definitions st page_index (pg # rest) =
     (case process_page rnd field_definitions st page_index pg of
        Inl e \<Rightarrow> Inl e
      | Inr st' \<Rightarrow> pages_loop rnd field_definitions st' (page_index + 1) rest)"

subsection \<open>The catalog and the records (lines 100 to 103 and 175 to 227)\<close>

definition build_field_definitions :: "(string \<times> pdf_dict) list \<Rightarrow> (string \<times> pdf_dict) list" where
  "build_field_definitions raw_fields =
     fold (\<lambda>(nm, data) acc.
             case normalise_name (Some nm) of
               None \<Rightarrow> acc
             | Some n \<Rightarrow> if n = [] then acc else AList.update n data acc)
       raw_fields []"

definition mapped_type :: "string option \<Rightarrow> string option" where
  "mapped_type field_type =
     (case field_type of
        None \<Rightarrow> None
      | Some code \<Rightarrow>
          (case map_of FIELD_TYPE_MAP code of None \<Rightarrow> Some code | Some label \<Rightarrow> Some label))"

definition synthetic_widget :: widget where
  "synthetic_widget =
     \<lparr>w_page = None, w_boundingBox = None, w_position = None, w_size = None,
      w_flutterConfig = None\<rparr>"

definition field_type_of :: "state \<Rightarrow> string \<Rightarrow> string option" where
  "field_type_of st field_name =
     (case map_of (field_types st) field_name of None \<Rightarrow> None | Some t \<Rightarrow> t)"

definition primary_of :: "state \<Rightarrow> string \<Rightarrow> widget" where
  "primary_of st field_name =
     (case widgets_of st field_name of [] \<Rightarrow> synthetic_widget | w # _ \<Rightarrow> w)"

definition make_record :: "(real \<Rightarrow> real) \<Rightarrow> state \<Rightarrow> string \<Rightarrow> field_record" where
  "make_record rnd st field_name =
     (let field_type = field_type_of st field_name;
          primary = primary_of st field_name
      in \<lparr>fr_name = field_name,
          fr_field_type = mapped_type field_type,
          fr_page = w_page primary,
          fr_page_size =
            round_size rnd
              (case w_page primary of None \<Rightarrow> None | Some p \<Rightarrow> map_of (page_metrics st) p),
          fr_bounding_box = round_box_dict rnd (w_boundingBox primary),
          fr_position = round_point rnd (w_position primary),
          fr_size = round_size rnd (w_size primary)\<rparr>)"

definition all_field_names :: "(string \<times> pdf_dict) list \<Rightarrow> state \<Rightarrow> string set" where
  "all_field_names field_definitions st =
     set (map fst field_definitions) \<union> set (map fst (widgets_by_field st))"

text \<open>Lines 100 to 103: \<open>reader.get_fields() or {}\<close>, then the comprehension.\<close>

definition field_definitions_of :: "reader \<Rightarrow> (string \<times> pdf_dict) list" where
  "field_definitions_of rd =
     build_field_definitions (case get_fields rd of None \<Rightarrow> [] | Some d \<Rightarrow> d)"

definition try_body :: "(real \<Rightarrow> real) \<Rightarrow> source \<Rightarrow> error + notice \<times> field_record list" where
  "try_body rnd src =
     (case src of
        Missing \<Rightarrow> Inl FileNotFoundError
      | Unreadable \<Rightarrow> Inl OtherException
      | Opened rd \<Rightarrow>
          let field_definitions = field_definitions_of rd
          in if pages rd = [] then Inr (NoPagesNotice, [])
             else
               (case pages_loop rnd field_definitions initial_state 1 (pages rd) of
                  Inl e \<Rightarrow> Inl e
                | Inr st \<Rightarrow>
                    Inr (FoundFieldsNotice,
                         map (make_record rnd st)
                           (sorted_list_of_set (all_field_names field_definitions st)))))"

definition get_form_field_positions ::
  "(real \<Rightarrow> real) \<Rightarrow> source \<Rightarrow> notice \<times> field_record list" where
  "get_form_field_positions rnd src =
     (case try_body rnd src of
        Inr result \<Rightarrow> result
      | Inl FileNotFoundError \<Rightarrow> (NotFoundNotice, [])
      | Inl OtherException \<Rightarrow> (UnexpectedNotice, []))"

subsection \<open>The widget sequence in document order\<close>

text \<open>
  The reference the loops are compared with: the named widgets of a document listed page
  by page and, within a page, annotation by annotation. An annotation without a field
  name contributes nothing (nor does one at which the pass fails); \<open>widgets_named n\<close> selects the widgets of field \<open>n\<close>.
\<close>

definition named_widget ::
  "(real \<Rightarrow> real) \<Rightarrow> int \<Rightarrow> real option \<Rightarrow> annotation_ref \<Rightarrow> (string \<times> widget) list" where
  "named_widget rnd page_index page_height annotation_ref =
     (case annotation_ref of
        Dangling \<Rightarrow> []
      | Resolves annotation \<Rightarrow>
          (case normalise_name (name_obj_of annotation) of
             None \<Rightarrow> []
           | Some field_name \<Rightarrow>
               (case resolve_rect (rect_of annotation) of
                  Inl e \<Rightarrow> []
                | Inr rect_info \<Rightarrow>
                    [(field_name,
                      make_widget rnd page_index page_height (rect_of annotation) rect_info)])))"

definition page_widgets :: "(real \<Rightarrow> real) \<Rightarrow> int \<Rightarrow> page \<Rightarrow> (string \<times> widget) list" where
  "page_widgets rnd page_index pg =
     concat (map (named_widget rnd page_index (sz_height (metrics_of pg))) (page_Annots pg))"

fun widget_sequence :: "(real \<Rightarrow> real) \<Rightarrow> int \<Rightarrow> page list \<Rightarrow> (string \<times> widget) list" where
  "widget_sequence rnd page_index [] = []"
| "widget_sequence rnd page_index (pg # rest) =
     page_widgets rnd page_index pg @ widget_sequence rnd (page_index + 1) rest"

definition widgets_named :: "string \<Rightarrow> (string \<times> widget) list \<Rightarrow> widget list" where
  "widgets_named n named = map snd (filter (\<lambda>entry. fst entry = n) named)"

subsection \<open>Example documents\<close>

text \<open>
  The end-to-end scenario of the specification: one page with media box \<open>[0, 0, 612, 792]\<close>
  and one text field \<open>Name\<close> at \<open>[100, 700, 300, 720]\<close>.
\<close>

definition letter_box :: mediabox where
  "letter_box = \<lparr>mb_left = 0, mb_bottom = 0, mb_right = 612, mb_top = 792\<rparr>"

definition name_annotation :: annotation where
  "name_annotation =
     \<lparr>entry_T = Some ''Name'',
      entry_Rect = Some [Numeric 100, Numeric 700, Numeric 300, Numeric 720],
      entry_FT = Some ''/Tx'',
      entry_Parent = None\<rparr>"

text \<open>An annotation whose rect has three entries.\<close>

definition short_rect_annotation :: annotation where
  "short_rect_annotation =
     \<lparr>entry_T = Some ''Short'',
      entry_Rect = Some [Numeric 1, Numeric 2, Numeric 3],
      entry_FT = None,
      entry_Parent = None\<rparr>"

text \<open>Two widgets of one field \<open>A\<close>: the first carries the code \<open>/Btn\<close>, the second none.\<close>

definition typed_annotation :: annotation where
  "typed_annotation =
     \<lparr>entry_T = Some ''A'', entry_Rect = None, entry_FT = Some ''/Btn'', entry_Parent = None\<rparr>"

definition untyped_annotation :: annotation where
  "untyped_annotation =
     \<lparr>entry_T = Some ''A'', entry_Rect = None, entry_FT = None, entry_Parent = None\<rparr>"

text \<open>An annotation whose \<open>/T\<close> is the one-character string \<open>/\<close>.\<close>

definition slash_annotation :: annotation where
  "slash_annotation =
     \<lparr>entry_T = Some ''/'', entry_Rect = None, entry_FT = None, entry_Parent = None\<rparr>"

definition page_with :: "annotation_ref list \<Rightarrow> page" where
  "page_with refs = \<lparr>page_mediabox = letter_box, page_Annots = refs\<rparr>"

text \<open>A catalog with the single text field \<open>A\<close>.\<close>

definition catalog_A :: "(string \<times> pdf_dict) list" where
  "catalog_A = [(''A'', \<lparr>entry_T = Some ''A'', entry_Rect = None, entry_FT = Some ''/Tx''\<rparr>)]"

text \<open>Documents built from the pieces above.\<close>

definition example_reader :: reader where
  "example_reader =
     \<lparr>get_fields = Some catalog_A, pages = [page_with [Resolves name_annotation]]\<rparr>"

definition empty_reader :: reader where
  "empty_reader = \<lparr>get_fields = Some catalog_A, pages = []\<rparr>"

definition widgets_reader :: "annotation_ref list \<Rightarrow> reader" where
  "widgets_reader refs = \<lparr>get_fields = None, pages = [page_with refs]\<rparr>"

text \<open>The two records \<open>example_reader\<close> yields.\<close>

definition catalog_only_record :: field_record where
  "catalog_only_record =
     \<lparr>fr_name = ''A'', fr_field_type = None, fr_page = None, fr_page_size = None,
      fr_bounding_box = None, fr_position = None, fr_size = None\<rparr>"

definition name_record :: field_record where
  "name_record =
     \<lparr>fr_name = ''Name'', fr_field_type = Some ''text'', fr_page = Some 1,
      fr_page_size = Some \<lparr>sz_width = Some 612, sz_height = Some 792\<rparr>,
      fr_bounding_box =
        Some \<lparr>top_left = \<lparr>pt_x = Some 100, pt_y = Some 720\<rparr>,
              top_right = \<lparr>pt_x = Some 300, pt_y = Some 720\<rparr>,
              bottom_left = \<lparr>pt_x = Some 100, pt_y = Some 700\<rparr>,
              bottom_right = \<lparr>pt_x = Some 300, pt_y = Some 700\<rparr>,
              ri_width = Some 200, ri_height = Some 20\<rparr>,
      fr_position = Some \<lparr>pt_x = Some 100, pt_y = Some 700\<rparr>,
      fr_size = Some \<lparr>sz_width = Some 200, sz_height = Some 20\<rparr>\<rparr>"

text \<open>The RectInfo of the rect of \<open>name_annotation\<close>.\<close>

definition name_rect_info :: rect_info where
  "name_rect_info =
     \<lparr>top_left = \<lparr>pt_x = Some 100, pt_y = Some 720\<rparr>,
      top_right = \<lparr>pt_x = Some 300, pt_y = Some 720\<rparr>,
      bottom_left = \<lparr>pt_x = Some 100, pt_y = Some 700\<rparr>,
      bottom_right = \<lparr>pt_x = Some 300, pt_y = Some 700\<rparr>,
      ri_width = Some 200,
      ri_height = Some 20\<rparr>"

text \<open>An annotation whose rect has a right edge beyond the range of a float.\<close>

definition huge_rect_annotation :: annotation where
  "huge_rect_annotation =
     \<lparr>entry_T = Some ''Huge'',
      entry_Rect = Some [Numeric 0, Numeric 0, OutOfRange, Numeric 1],
      entry_FT = None,
      entry_Parent = None\<rparr>"

lemmas run_defs =
  get_form_field_positions_def try_body_def field_definitions_of_def
  build_field_definitions_def process_page_def metrics_of_def process_annotation_def
  initial_state_def name_obj_of_def rect_of_def type_code_of_def py_or_def truthy_def
  normalise_name_def make_widget_def resolve_rect_def rect_info_of_def null_rect_info_def
  as_float_def
  format_number_def widgets_of_def all_field_names_def make_record_def primary_of_def
  field_type_of_def synthetic_widget_def mapped_type_def FIELD_TYPE_MAP_def
  round_size_def round_point_def round_box_dict_def round_corner_def
  letter_box_def name_annotation_def short_rect_annotation_def typed_annotation_def
  untyped_annotation_def slash_annotation_def huge_rect_annotation_def page_with_def
  catalog_A_def name_rect_info_def
  sorted_list_of_set_sort_remdups Let_def

lemmas example_defs = example_reader_def empty_reader_def widgets_reader_def

section \<open>Facts about the loops\<close>

lemma process_annotation_named:
  "normalise_name (name_obj_of a) = Some n \<Longrightarrow> resolve_rect (rect_of a) = Inr ri \<Longrightarrow>
   process_annotation rnd fd idx ph st (Resolves a) =
     Inr (st\<lparr>field_types := AList.update n (type_code_of fd n a) (field_types st),
             widgets_by_field :=
               AList.update n (widgets_of st n @ [make_widget rnd idx ph (rect_of a) ri])
                 (widgets_by_field st)\<rparr>)"
  by (simp add: process_annotation_def)

lemma widgets_of_update:
  "widgets_of (st\<lparr>field_types := ft, widgets_by_field := AList.update n ws (widgets_by_field st)\<rparr>) m =
     (if m = n then ws else widgets_of st m)"
  by (simp add: widgets_of_def update_conv')

lemma widgets_named_simps:
  "widgets_named n [] = []"
  "widgets_named n (xs @ ys) = widgets_named n xs @ widgets_named n ys"
  "widgets_named n [(m, w)] = (if m = n then [w] else [])"
  by (simp_all add: widgets_named_def)

lemma process_annotation_widgets:
  assumes "process_annotation rnd fd idx ph st r = Inr st'"
  shows "widgets_of st' n = widgets_of st n @ widgets_named n (named_widget rnd idx ph r)"
    and "page_metrics st' = page_metrics st"
  using assms
  by (auto simp: process_annotation_def named_widget_def widgets_of_update widgets_named_simps
      split: annotation_ref.splits option.splits sum.splits)

lemma annotations_loop_widgets:
  assumes "annotations_loop rnd fd idx ph st rs = Inr st'"
  shows "widgets_of st' n =
           widgets_of st n @ widgets_named n (concat (map (named_widget rnd idx ph) rs))
         \<and> page_metrics st' = page_metrics st"
  using assms
proof (induction rs arbitrary: st)
  case Nil
  then show ?case by (simp add: widgets_named_simps)
next
  case (Cons r rs)
  from Cons.prems obtain st1 where
    step: "process_annotation rnd fd idx ph st r = Inr st1"
    and rest: "annotations_loop rnd fd idx ph st1 rs = Inr st'"
    by (auto split: sum.splits)
  from Cons.IH [OF rest] process_annotation_widgets(1) [OF step, of n]
    process_annotation_widgets(2) [OF step]
  show ?case by (simp add: widgets_named_simps)
qed

lemma widgets_of_page_metrics_update:
  "widgets_of (st\<lparr>page_metrics := pm\<rparr>) n = widgets_of st n"
  by (simp add: widgets_of_def)

lemma process_page_widgets:
  assumes "process_page rnd fd st idx pg = Inr st'"
  shows "widgets_of st' n = widgets_of st n @ widgets_named n (page_widgets rnd idx pg)"
    and "page_metrics st' = AList.update idx (metrics_of pg) (page_metrics st)"
proof -
  let ?st1 = "st\<lparr>page_metrics := AList.update idx (metrics_of pg) (page_metrics st)\<rparr>"
  show "widgets_of st' n = widgets_of st n @ widgets_named n (page_widgets rnd idx pg)"
  proof (cases "page_Annots pg = []")
    case True
    with assms show ?thesis
      by (auto simp: process_page_def Let_def page_widgets_def widgets_named_simps
          widgets_of_page_metrics_update)
  next
    case False
    with assms have "annotations_loop rnd fd idx (sz_height (metrics_of pg)) ?st1 (page_Annots pg) = Inr st'"
      by (simp add: process_page_def Let_def)
    from annotations_loop_widgets [OF this, of n] show ?thesis
      by (simp add: page_widgets_def widgets_of_page_metrics_update)
  qed
  show "page_metrics st' = AList.update idx (metrics_of pg) (page_metrics st)"
  proof (cases "page_Annots pg = []")
    case True
    with assms show ?thesis by (auto simp: process_page_def Let_def)
  next
    case False
    with assms have "annotations_loop rnd fd idx (sz_height (metrics_of pg)) ?st1 (page_Annots pg) = Inr st'"
      by (simp add: process_page_def Let_def)
    from annotations_loop_widgets [OF this, of n] show ?thesis by simp
  qed
qed

lemma pages_loop_widgets:
  assumes "pages_loop rnd fd st idx pgs = Inr st'"
  shows "widgets_of st' n = widgets_of st n @ widgets_named n (widget_sequence rnd idx pgs)"
  using assms
proof (induction pgs arbitrary: st idx)
  case Nil
  then show ?case by (simp add: widgets_named_simps)
next
  case (Cons pg pgs)
  from Cons.prems obtain st1 where
    step: "process_page rnd fd st idx pg = Inr st1"
    and rest: "pages_loop rnd fd st1 (idx + 1) pgs = Inr st'"
    by (auto split: sum.splits)
  from Cons.IH [OF rest] process_page_widgets(1) [OF step, of n]
  show ?case by (simp add: widgets_named_simps)
qed

lemma pages_loop_metrics:
  assumes "pages_loop rnd fd st idx pgs = Inr st'"
  shows "map_of (page_metrics st') p =
           (if idx \<le> p \<and> p < idx + int (length pgs) then Some (metrics_of (pgs ! nat (p - idx)))
            else map_of (page_metrics st) p)"
  using assms
proof (induction pgs arbitrary: st idx)
  case Nil
  then show ?case by auto
next
  case (Cons pg pgs)
  from Cons.prems obtain st1 where
    step: "process_page rnd fd st idx pg = Inr st1"
    and rest: "pages_loop rnd fd st1 (idx + 1) pgs = Inr st'"
    by (auto split: sum.splits)
  have m1: "map_of (page_metrics st1) p = (if p = idx then Some (metrics_of pg) else map_of (page_metrics st) p)"
    using process_page_widgets(2) [OF step] by (simp add: update_conv')
  show ?case
  proof (cases "p = idx")
    case True
    with Cons.IH [OF rest] m1 show ?thesis by simp
  next
    case False
    have "nat (p - idx) = Suc (nat (p - (idx + 1)))" if "idx < p"
      using that by simp
    with False Cons.IH [OF rest] m1 show ?thesis by auto
  qed
qed

lemma widget_sequence_page:
  assumes "(n, w) \<in> set (widget_sequence rnd idx pgs)"
  shows "\<exists>p. w_page w = Some p \<and> idx \<le> p \<and> p < idx + int (length pgs)"
  using assms
proof (induction pgs arbitrary: idx)
  case Nil
  then show ?case by simp
next
  case (Cons pg pgs)
  from Cons.prems consider
    (here) "(n, w) \<in> set (page_widgets rnd idx pg)" |
    (later) "(n, w) \<in> set (widget_sequence rnd (idx + 1) pgs)"
    by auto
  then show ?case
  proof cases
    case here
    then have "w_page w = Some idx"
      by (auto simp: page_widgets_def named_widget_def make_widget_def Let_def
          split: annotation_ref.splits option.splits sum.splits)
    then show ?thesis by simp
  next
    case later
    from Cons.IH [OF later] show ?thesis by auto
  qed
qed

lemma widgets_of_initial: "widgets_of initial_state n = []"
  by (simp add: widgets_of_def initial_state_def)

lemma run_found:
  assumes "get_form_field_positions rnd (Opened rd) = (FoundFieldsNotice, recs)"
  shows "\<exists>st. pages rd \<noteq> []
     \<and> pages_loop rnd (field_definitions_of rd) initial_state 1 (pages rd) = Inr st
     \<and> recs = map (make_record rnd st)
                (sorted_list_of_set (all_field_names (field_definitions_of rd) st))"
  using assms
  by (auto simp: get_form_field_positions_def try_body_def Let_def
      split: if_splits sum.splits error.splits)

lemma run_of_loop:
  assumes "pages rd \<noteq> []"
    and "pages_loop rnd (field_definitions_of rd) initial_state 1 (pages rd) = Inr st"
  shows "get_form_field_positions rnd (Opened rd) =
     (FoundFieldsNotice,
      map (make_record rnd st) (sorted_list_of_set (all_field_names (field_definitions_of rd) st)))"
  using assms by (simp add: get_form_field_positions_def try_body_def Let_def)

lemma fr_name_make_record: "fr_name (make_record rnd st n) = n"
  by (simp add: make_record_def Let_def)

lemma names_of_records: "map (fr_name \<circ> make_record rnd st) ns = ns"
  by (induction ns) (simp_all add: fr_name_make_record)

lemma process_annotation_keys:
  assumes "process_annotation rnd fd idx ph st r = Inr st'"
  shows "fst ` set (widgets_by_field st') =
           fst ` set (widgets_by_field st) \<union> fst ` set (named_widget rnd idx ph r)"
proof (cases r)
  case Dangling
  with assms show ?thesis by (simp add: process_annotation_def)
next
  case (Resolves a)
  show ?thesis
  proof (cases "normalise_name (name_obj_of a)")
    case None
    with assms Resolves show ?thesis
      by (simp add: process_annotation_def named_widget_def)
  next
    case (Some n)
    with assms Resolves obtain ri where ri: "resolve_rect (rect_of a) = Inr ri"
      by (auto simp: process_annotation_def split: sum.splits)
    with assms Resolves Some have "widgets_by_field st' =
        AList.update n (widgets_of st n @ [make_widget rnd idx ph (rect_of a) ri])
          (widgets_by_field st)"
      by (auto simp: process_annotation_def)
    with Some Resolves ri show ?thesis
      by (simp add: named_widget_def dom_update Un_commute)
  qed
qed

lemma annotations_loop_keys:
  assumes "annotations_loop rnd fd idx ph st rs = Inr st'"
  shows "fst ` set (widgets_by_field st') =
           fst ` set (widgets_by_field st) \<union> fst ` set (concat (map (named_widget rnd idx ph) rs))"
  using assms
proof (induction rs arbitrary: st)
  case Nil
  then show ?case by simp
next
  case (Cons r rs)
  from Cons.prems obtain st1 where
    step: "process_annotation rnd fd idx ph st r = Inr st1"
    and rest: "annotations_loop rnd fd idx ph st1 rs = Inr st'"
    by (auto split: sum.splits)
  from Cons.IH [OF rest] process_annotation_keys [OF step]
  show ?case by (simp add: image_Un Un_assoc)
qed

lemma process_page_keys:
  assumes "process_page rnd fd st idx pg = Inr st'"
  shows "fst ` set (widgets_by_field st') =
           fst ` set (widgets_by_field st) \<union> fst ` set (page_widgets rnd idx pg)"
proof (cases "page_Annots pg = []")
  case True
  with assms show ?thesis
    by (auto simp: process_page_def Let_def page_widgets_def)
next
  case False
  with assms have "annotations_loop rnd fd idx (sz_height (metrics_of pg))
      (st\<lparr>page_metrics := AList.update idx (metrics_of pg) (page_metrics st)\<rparr>)
      (page_Annots pg) = Inr st'"
    by (simp add: process_page_def Let_def)
  from annotations_loop_keys [OF this] show ?thesis
    by (simp add: page_widgets_def)
qed

lemma pages_loop_keys:
  assumes "pages_loop rnd fd st idx pgs = Inr st'"
  shows "fst ` set (widgets_by_field st') =
           fst ` set (widgets_by_field st) \<union> fst ` set (widget_sequence rnd idx pgs)"
  using assms
proof (induction pgs arbitrary: st idx)
  case Nil
  then show ?case by simp
next
  case (Cons pg pgs)
  from Cons.prems obtain st1 where
    step: "process_page rnd fd st idx pg = Inr st1"
    and rest: "pages_loop rnd fd st1 (idx + 1) pgs = Inr st'"
    by (auto split: sum.splits)
  from Cons.IH [OF rest] process_page_keys [OF step]
  show ?case by (simp add: image_Un Un_assoc)
qed

lemma resolve_rect_wrong_length:
  "length entries \<noteq> 4 \<Longrightarrow> resolve_rect (Some entries) = Inr null_rect_info"
  by (simp add: resolve_rect_def)

lemma example_run:
  "get_form_field_positions id (Opened example_reader) =
     (FoundFieldsNotice, [catalog_only_record, name_record])"
  by (simp add: run_defs example_defs catalog_only_record_def name_record_def)

section \<open>Properties\<close>

subsection \<open>Rect resolution\<close>




subsection \<open>The flutter coordinates of a widget\<close>

text \<open>
  C2. Processing a named annotation whose effective rect resolves to a RectInfo (line 135
  returns) appends one widget to its field. Its \<open>flutterConfig\<close>
  is present exactly when the effective rect is present (a truthy value: the test the code
  makes) and the page height is known; then \<open>pageIndex\<close> is the page index minus one
  (pages are counted from 1), \<open>x\<close> is the rounded \<open>bottom_left.x\<close>, \<open>y\<close> the rounded
  \<open>page_height - top_left.y\<close> when \<open>top_left.y\<close> is not null and null otherwise, and
  \<open>width\<close> and \<open>height\<close> are the rounded width and height of the RectInfo.
\<close>

theorem flutter_config_of_widget:
  assumes "normalise_name (name_obj_of a) = Some n"
    and "resolve_rect (rect_of a) = Inr rect_info"
  shows "\<exists>st' w.
     process_annotation rnd fd idx ph st (Resolves a) = Inr st'
     \<and> widgets_of st' n = widgets_of st n @ [w]
     \<and> w_page w = Some idx
     \<and> w_flutterConfig w =
         (if truthy (rect_of a) \<and> ph \<noteq> None
          then Some
            \<lparr>pageIndex = idx - 1,
             fc_x = format_number rnd (pt_x (bottom_left rect_info)),
             fc_y =
               (case (pt_y (top_left rect_info), ph) of
                  (Some ty, Some h) \<Rightarrow> Some (rnd (h - ty))
                | _ \<Rightarrow> None),
             fc_width = format_number rnd (ri_width rect_info),
             fc_height = format_number rnd (ri_height rect_info),
             positionUnit = ''points'',
             sizeUnit = ''points''\<rparr>
          else None)"
  using assms
  by (simp add: process_annotation_named widgets_of_update make_widget_def Let_def format_number_def
      split: option.splits)

theorem flutter_config_of_widget_witness:
  "normalise_name (name_obj_of name_annotation) = Some ''Name''
   \<and> resolve_rect (rect_of name_annotation) = Inr name_rect_info
   \<and> (\<exists>st' w.
        process_annotation id [] 1 (Some 792) initial_state (Resolves name_annotation) = Inr st'
        \<and> widgets_of st' ''Name'' = widgets_of initial_state ''Name'' @ [w]
        \<and> w_page w = Some 1
        \<and> w_flutterConfig w =
            Some \<lparr>pageIndex = 0, fc_x = Some 100, fc_y = Some 72, fc_width = Some 200,
                  fc_height = Some 20, positionUnit = ''points'', sizeUnit = ''points''\<rparr>)"
proof -
  have nm: "normalise_name (name_obj_of name_annotation) = Some ''Name''"
    by (simp add: run_defs)
  have ri: "resolve_rect (rect_of name_annotation) = Inr name_rect_info"
    by (simp add: run_defs)
  have "(if truthy (rect_of name_annotation) \<and> Some (792::real) \<noteq> None
          then Some
            \<lparr>pageIndex = 1 - 1,
             fc_x = format_number id (pt_x (bottom_left name_rect_info)),
             fc_y =
               (case (pt_y (top_left name_rect_info), Some (792::real)) of
                  (Some ty, Some h) \<Rightarrow> Some (id (h - ty))
                | _ \<Rightarrow> None),
             fc_width = format_number id (ri_width name_rect_info),
             fc_height = format_number id (ri_height name_rect_info),
             positionUnit = ''points'',
             sizeUnit = ''points''\<rparr>
          else None) =
      Some \<lparr>pageIndex = 0, fc_x = Some 100, fc_y = Some 72, fc_width = Some 200,
            fc_height = Some 20, positionUnit = ''points'', sizeUnit = ''points''\<rparr>"
    by (simp add: run_defs)
  with flutter_config_of_widget [OF nm ri, of id "[]" 1 "Some 792" initial_state] nm ri
  show ?thesis by simp
qed

subsection \<open>The representative widget of a record\<close>

text \<open>
  C3. In a run that reaches the report, the record of a field takes its page, bounding
  box, position and size from the first widget of that field in page-then-annotation
  order (its page size is that of the widget's page); a field with no widget gets a
  record whose page, page size, bounding box, position and size are all null.
\<close>

theorem representative_widget:
  assumes "get_form_field_positions rnd (Opened rd) = (FoundFieldsNotice, recs)"
    and "rec \<in> set recs"
  shows "case widgets_named (fr_name rec) (widget_sequence rnd 1 (pages rd)) of
           [] \<Rightarrow>
             fr_page rec = None \<and> fr_page_size rec = None \<and> fr_bounding_box rec = None
             \<and> fr_position rec = None \<and> fr_size rec = None
         | w # later \<Rightarrow>
             fr_page rec = w_page w
             \<and> fr_bounding_box rec = round_box_dict rnd (w_boundingBox w)
             \<and> fr_position rec = round_point rnd (w_position w)
             \<and> fr_size rec = round_size rnd (w_size w)
             \<and> (\<exists>p. w_page w = Some p \<and> 1 \<le> p \<and> p \<le> int (length (pages rd))
                  \<and> fr_page_size rec = round_size rnd (Some (metrics_of (pages rd ! nat (p - 1)))))"
proof -
  from run_found [OF assms(1)] obtain st where
    loop: "pages_loop rnd (field_definitions_of rd) initial_state 1 (pages rd) = Inr st"
    and recs: "recs = map (make_record rnd st)
                 (sorted_list_of_set (all_field_names (field_definitions_of rd) st))"
    by blast
  from assms(2) recs obtain n where rec: "rec = make_record rnd st n"
    by auto
  have name: "fr_name rec = n"
    by (simp add: rec make_record_def Let_def)
  have ws: "widgets_of st n = widgets_named n (widget_sequence rnd 1 (pages rd))"
    using pages_loop_widgets [OF loop, of n] by (simp add: widgets_of_initial)
  show ?thesis
  proof (cases "widgets_named n (widget_sequence rnd 1 (pages rd))")
    case Nil
    with ws show ?thesis
      by (simp add: name rec make_record_def Let_def primary_of_def synthetic_widget_def
          round_size_def round_box_dict_def round_point_def)
  next
    case (Cons w later)
    then have "w \<in> set (widgets_named n (widget_sequence rnd 1 (pages rd)))"
      by simp
    then have "(n, w) \<in> set (widget_sequence rnd 1 (pages rd))"
      by (auto simp: widgets_named_def)
    from widget_sequence_page [OF this] obtain p where
      p: "w_page w = Some p" "1 \<le> p" "p < 1 + int (length (pages rd))"
      by blast
    have "map_of (page_metrics st) p = Some (metrics_of (pages rd ! nat (p - 1)))"
      using pages_loop_metrics [OF loop, of p] p by simp
    with Cons ws p show ?thesis
      by (simp add: name rec make_record_def Let_def primary_of_def)
  qed
qed


theorem representative_widget_witness:
  "get_form_field_positions id (Opened example_reader) =
     (FoundFieldsNotice, [catalog_only_record, name_record])
   \<and> name_record \<in> set [catalog_only_record, name_record]
   \<and> catalog_only_record \<in> set [catalog_only_record, name_record]
   \<and> widgets_named ''Name'' (widget_sequence id 1 (pages example_reader)) =
       [make_widget id 1 (Some 792) (rect_of name_annotation) name_rect_info]
   \<and> fr_page name_record = w_page (make_widget id 1 (Some 792) (rect_of name_annotation) name_rect_info)
   \<and> fr_position name_record =
       round_point id (w_position (make_widget id 1 (Some 792) (rect_of name_annotation) name_rect_info))
   \<and> widgets_named ''A'' (widget_sequence id 1 (pages example_reader)) = []
   \<and> fr_page catalog_only_record = None
   \<and> fr_bounding_box catalog_only_record = None"
proof -
  let ?w = "make_widget id 1 (Some 792) (rect_of name_annotation) name_rect_info"
  have m1: "name_record \<in> set [catalog_only_record, name_record]"
    by simp
  have m2: "catalog_only_record \<in> set [catalog_only_record, name_record]"
    by simp
  have s1: "widgets_named (fr_name name_record) (widget_sequence id 1 (pages example_reader)) =
      [?w]"
    by (simp add: name_record_def example_defs widgets_named_def page_widgets_def
        named_widget_def page_with_def metrics_of_def letter_box_def name_annotation_def
        name_obj_of_def normalise_name_def py_or_def truthy_def rect_of_def resolve_rect_def
        as_float_def rect_info_of_def name_rect_info_def)
  have s2: "widgets_named (fr_name catalog_only_record)
      (widget_sequence id 1 (pages example_reader)) = []"
    by (simp add: catalog_only_record_def example_defs widgets_named_def page_widgets_def
        named_widget_def page_with_def metrics_of_def letter_box_def name_annotation_def
        name_obj_of_def normalise_name_def py_or_def truthy_def rect_of_def resolve_rect_def
        as_float_def rect_info_of_def name_rect_info_def)
  from representative_widget [OF example_run m1]
  have r1: "fr_page name_record = w_page ?w"
    "fr_position name_record = round_point id (w_position ?w)"
    by (simp_all only: s1 list.case)
  from representative_widget [OF example_run m2]
  have r2: "fr_page catalog_only_record = None" "fr_bounding_box catalog_only_record = None"
    by (simp_all only: s2 list.case)
  have n1: "fr_name name_record = ''Name''" and n2: "fr_name catalog_only_record = ''A''"
    by (simp_all add: name_record_def catalog_only_record_def)
  from example_run m1 m2 s1 [unfolded n1] r1 s2 [unfolded n2] r2 show ?thesis
    by (intro conjI)
qed

subsection \<open>The names of the records\<close>

text \<open>
  C4, as stated, fails on a document without pages: the catalog of \<open>empty_reader\<close> has
  the key \<open>A\<close>, and the record list is empty.
\<close>

theorem record_names_zero_pages_counterexample:
  "map fst (field_definitions_of empty_reader) = [''A'']
   \<and> get_form_field_positions id (Opened empty_reader) = (NoPagesNotice, [])"
  by (simp add: run_defs example_defs)

text \<open>
  C4, amended. For a document with at least one page whose pages are processed without
  a failure, the names of the records are the union of the catalog's keys and the widget
  map's keys (the names of the widgets in the document), each once, in ascending order.
\<close>

theorem record_names_sorted_union:
  assumes "pages rd \<noteq> []"
    and "pages_loop rnd (field_definitions_of rd) initial_state 1 (pages rd) = Inr st"
  shows "map fr_name (snd (get_form_field_positions rnd (Opened rd))) =
           sorted_list_of_set
             (set (map fst (field_definitions_of rd)) \<union> set (map fst (widgets_by_field st)))
         \<and> set (map fst (widgets_by_field st)) = fst ` set (widget_sequence rnd 1 (pages rd))
         \<and> distinct (map fr_name (snd (get_form_field_positions rnd (Opened rd))))
         \<and> sorted (map fr_name (snd (get_form_field_positions rnd (Opened rd))))"
proof -
  have names: "map fr_name (snd (get_form_field_positions rnd (Opened rd))) =
      sorted_list_of_set (all_field_names (field_definitions_of rd) st)"
    by (simp add: run_of_loop [OF assms] names_of_records)
  have keys: "set (map fst (widgets_by_field st)) = fst ` set (widget_sequence rnd 1 (pages rd))"
    using pages_loop_keys [OF assms(2)] by (simp add: initial_state_def)
  from names keys show ?thesis
    by (simp add: all_field_names_def)
qed

theorem record_names_sorted_union_witness:
  "pages example_reader \<noteq> []
   \<and> pages_loop id (field_definitions_of example_reader) initial_state 1 (pages example_reader) =
       Inr \<lparr>widgets_by_field =
              [(''Name'', [make_widget id 1 (Some 792) (rect_of name_annotation) name_rect_info])],
            field_types = [(''Name'', Some ''Tx'')],
            page_metrics = [(1, \<lparr>sz_width = Some 612, sz_height = Some 792\<rparr>)]\<rparr>
   \<and> map fst (field_definitions_of example_reader) = [''A'']
   \<and> map fr_name (snd (get_form_field_positions id (Opened example_reader))) = [''A'', ''Name'']"
proof -
  let ?st = "\<lparr>widgets_by_field =
              [(''Name'', [make_widget id 1 (Some 792) (rect_of name_annotation) name_rect_info])],
            field_types = [(''Name'', Some ''Tx'')],
            page_metrics = [(1, \<lparr>sz_width = Some 612, sz_height = Some 792\<rparr>)]\<rparr>"
  have ne: "pages example_reader \<noteq> []"
    by (simp add: example_defs)
  have loop: "pages_loop id (field_definitions_of example_reader) initial_state 1
      (pages example_reader) = Inr ?st"
    by (simp add: run_defs example_defs)
  have cat: "map fst (field_definitions_of example_reader) = [''A'']"
    by (simp add: run_defs example_defs)
  from record_names_sorted_union [OF ne loop]
  have "map fr_name (snd (get_form_field_positions id (Opened example_reader))) =
      sorted_list_of_set
        (set (map fst (field_definitions_of example_reader)) \<union> set (map fst (widgets_by_field ?st)))"
    by (rule conjunct1)
  also have "\<dots> = [''A'', ''Name'']"
    by (simp add: cat sorted_list_of_set_sort_remdups)
  finally show ?thesis
    using ne loop cat by (intro conjI)
qed

subsection \<open>Failures\<close>

text \<open>
  C5. The function returns a pair of a notice and a list on every source. A missing file
  gives the not-found notice and no record, any other failure of the body (at opening, or
  at a dangling annotation after other annotations were processed) the unexpected-error
  notice and no record, and a document without pages the no-pages notice and no record,
  whatever its catalog and before any page is visited.
\<close>

theorem errors_absorbed:
  "get_form_field_positions rnd Missing = (NotFoundNotice, [])
   \<and> get_form_field_positions rnd Unreadable = (UnexpectedNotice, [])
   \<and> (try_body rnd src = Inl FileNotFoundError \<longrightarrow>
        get_form_field_positions rnd src = (NotFoundNotice, []))
   \<and> (try_body rnd src = Inl OtherException \<longrightarrow>
        get_form_field_positions rnd src = (UnexpectedNotice, []))
   \<and> (pages_loop rnd (field_definitions_of rd) initial_state 1 (pages rd) = Inl e \<longrightarrow>
        snd (get_form_field_positions rnd (Opened rd)) = [])
   \<and> (pages rd = [] \<longrightarrow> get_form_field_positions rnd (Opened rd) = (NoPagesNotice, []))"
  by (cases e) (simp_all add: get_form_field_positions_def try_body_def Let_def)

theorem errors_absorbed_witness:
  "try_body id Missing = Inl FileNotFoundError
   \<and> get_form_field_positions id Missing = (NotFoundNotice, [])
   \<and> try_body id (Opened (widgets_reader [Resolves name_annotation, Dangling])) =
       Inl OtherException
   \<and> get_form_field_positions id (Opened (widgets_reader [Resolves name_annotation, Dangling])) =
       (UnexpectedNotice, [])
   \<and> pages_loop id (field_definitions_of (widgets_reader [Resolves name_annotation, Dangling]))
       initial_state 1 (pages (widgets_reader [Resolves name_annotation, Dangling])) =
       Inl OtherException
   \<and> pages empty_reader = []
   \<and> get_form_field_positions id (Opened empty_reader) = (NoPagesNotice, [])"
proof -
  let ?rd = "widgets_reader [Resolves name_annotation, Dangling]"
  have a: "try_body id Missing = Inl FileNotFoundError"
    by (simp add: try_body_def)
  have b: "try_body id (Opened ?rd) = Inl OtherException"
    by (simp add: run_defs example_defs)
  have c: "pages_loop id (field_definitions_of ?rd) initial_state 1 (pages ?rd) = Inl OtherException"
    by (simp add: run_defs example_defs)
  have d: "pages empty_reader = []"
    by (simp add: example_defs)
  note inst_a = errors_absorbed [of id Missing empty_reader OtherException]
  note inst_b = errors_absorbed [of id "Opened ?rd" ?rd OtherException]
  from inst_a a have a': "get_form_field_positions id Missing = (NotFoundNotice, [])"
    by blast
  from inst_b b have b': "get_form_field_positions id (Opened ?rd) = (UnexpectedNotice, [])"
    by blast
  from inst_a d have d': "get_form_field_positions id (Opened empty_reader) = (NoPagesNotice, [])"
    by blast
  from a a' b b' c d d' show ?thesis
    by (intro conjI)
qed

subsection \<open>The field type\<close>

text \<open>
  C6, as stated, fails: after the first widget of field \<open>A\<close> the recorded type is
  \<open>Btn\<close>; a second widget of \<open>A\<close> without any type source replaces it by null, and the
  record's type is null.
\<close>

theorem field_type_set_once_counterexample:
  "map_sum id field_types
     (annotations_loop id [] 1 (Some 792) initial_state [Resolves typed_annotation]) =
     Inr [(''A'', Some ''Btn'')]
   \<and> map_sum id field_types
       (annotations_loop id [] 1 (Some 792) initial_state
          [Resolves typed_annotation, Resolves untyped_annotation]) =
     Inr [(''A'', None)]
   \<and> map fr_field_type
       (snd (get_form_field_positions id (Opened (widgets_reader [Resolves typed_annotation])))) =
     [Some ''check'']
   \<and> map fr_field_type
       (snd (get_form_field_positions id
          (Opened (widgets_reader [Resolves typed_annotation, Resolves untyped_annotation])))) =
     [None]"
  by (simp add: run_defs example_defs)

text \<open>
  C6, amended. Every named annotation that is processed (line 135 returns a RectInfo for
  its rect) assigns the type of its field anew: the value
  recorded afterwards is the normalised code of the parent (of the annotation itself when
  it has no parent), or of the catalog entry when that code is absent, whatever was
  recorded before; when all these sources are absent the recorded type becomes null.
\<close>

theorem field_type_reassigned:
  assumes "normalise_name (name_obj_of a) = Some n"
    and "resolve_rect (rect_of a) = Inr rect_info"
  shows "\<exists>st'.
     process_annotation rnd fd idx ph st (Resolves a) = Inr st'
     \<and> map_of (field_types st') n = Some (type_code_of fd n a)
     \<and> field_type_of st' n = type_code_of fd n a
     \<and> ((case entry_Parent a of Some parent \<Rightarrow> entry_FT parent | None \<Rightarrow> entry_FT a) = None
          \<and> (case map_of fd n of None \<Rightarrow> None | Some d \<Rightarrow> entry_FT d) = None
          \<longrightarrow> field_type_of st' n = None)"
  using assms
  by (simp add: process_annotation_named field_type_of_def update_conv' type_code_of_def
      py_or_def truthy_def normalise_name_def)

theorem field_type_reassigned_witness:
  "normalise_name (name_obj_of untyped_annotation) = Some ''A''
   \<and> resolve_rect (rect_of untyped_annotation) = Inr null_rect_info
   \<and> (case entry_Parent untyped_annotation of
         Some parent \<Rightarrow> entry_FT parent
       | None \<Rightarrow> entry_FT untyped_annotation) = None
   \<and> (case map_of ([] :: (string \<times> pdf_dict) list) ''A'' of
         None \<Rightarrow> None | Some d \<Rightarrow> entry_FT d) = None
   \<and> field_type_of
        \<lparr>widgets_by_field = [], field_types = [(''A'', Some ''Btn'')], page_metrics = []\<rparr> ''A'' =
      Some ''Btn''
   \<and> (\<exists>st'.
        process_annotation id [] 1 (Some 792)
          \<lparr>widgets_by_field = [], field_types = [(''A'', Some ''Btn'')], page_metrics = []\<rparr>
          (Resolves untyped_annotation) = Inr st'
        \<and> field_type_of st' ''A'' = None)"
proof -
  let ?st = "\<lparr>widgets_by_field = [], field_types = [(''A'', Some ''Btn'')], page_metrics = []\<rparr>"
  have nm: "normalise_name (name_obj_of untyped_annotation) = Some ''A''"
    by (simp add: run_defs)
  have ri: "resolve_rect (rect_of untyped_annotation) = Inr null_rect_info"
    by (simp add: untyped_annotation_def rect_of_def py_or_def truthy_def resolve_rect_def)
  have own: "(case entry_Parent untyped_annotation of
         Some parent \<Rightarrow> entry_FT parent
       | None \<Rightarrow> entry_FT untyped_annotation) = None"
    by (simp add: untyped_annotation_def)
  have cat: "(case map_of ([] :: (string \<times> pdf_dict) list) ''A'' of
         None \<Rightarrow> None | Some d \<Rightarrow> entry_FT d) = None"
    by simp
  have before: "field_type_of ?st ''A'' = Some ''Btn''"
    by (simp add: field_type_of_def)
  from field_type_reassigned [OF nm ri, of id "[]" 1 "Some 792" ?st] own cat
  have "\<exists>st'. process_annotation id [] 1 (Some 792) ?st (Resolves untyped_annotation) = Inr st'
        \<and> field_type_of st' ''A'' = None"
    by blast
  with nm ri own cat before show ?thesis
    by (intro conjI)
qed

text \<open>
  C7. The code at an annotation whose name is the string \<open>/\<close>: the normalised name is
  the empty string, which is not \<open>None\<close>, so the annotation is kept and a record named by
  the empty string is reported; the catalog builder drops the same name.
\<close>

theorem empty_name_not_skipped:
  "normalise_name (name_obj_of slash_annotation) = Some []
   \<and> get_form_field_positions id (Opened (widgets_reader [Resolves slash_annotation])) =
     (FoundFieldsNotice,
      [\<lparr>fr_name = [], fr_field_type = None, fr_page = Some 1,
        fr_page_size = Some \<lparr>sz_width = Some 612, sz_height = Some 792\<rparr>,
        fr_bounding_box = None, fr_position = None, fr_size = None\<rparr>])
   \<and> build_field_definitions
       [(''/'', \<lparr>entry_T = Some ''/'', entry_Rect = None, entry_FT = None\<rparr>)] = []"
  by (simp add: run_defs example_defs)

text \<open>
  C8. The code at a field that is in the catalog with the code \<open>/Tx\<close> and has no
  annotation: its record has a null type. With one annotation that carries no code of its
  own, the catalog's code is used and the type is \<open>text\<close>.
\<close>

theorem catalog_only_field_type:
  "get_form_field_positions id (Opened \<lparr>get_fields = Some catalog_A, pages = [page_with []]\<rparr>) =
     (FoundFieldsNotice,
      [\<lparr>fr_name = ''A'', fr_field_type = None, fr_page = None, fr_page_size = None,
        fr_bounding_box = None, fr_position = None, fr_size = None\<rparr>])
   \<and> map fr_field_type
       (snd (get_form_field_positions id
          (Opened \<lparr>get_fields = Some catalog_A,
                   pages = [page_with [Resolves untyped_annotation]]\<rparr>))) =
     [Some ''text'']"
  by (simp add: run_defs example_defs)

text \<open>
  C9. The type of every record is the recorded code of its field mapped through the
  table: \<open>Tx\<close>, \<open>Sig\<close>, \<open>Btn\<close>, \<open>Ch\<close> and \<open>Rd\<close> give \<open>text\<close>, \<open>signature\<close>,
  \<open>check\<close>, \<open>choice\<close> and \<open>radio\<close>; any other code is passed through; null gives null.
\<close>

theorem displayed_field_type:
  "(get_form_field_positions rnd (Opened rd) = (FoundFieldsNotice, recs) \<longrightarrow>
      (\<exists>st. pages_loop rnd (field_definitions_of rd) initial_state 1 (pages rd) = Inr st
         \<and> (\<forall>rec \<in> set recs. fr_field_type rec = mapped_type (field_type_of st (fr_name rec)))))
   \<and> mapped_type (Some ''Tx'') = Some ''text''
   \<and> mapped_type (Some ''Sig'') = Some ''signature''
   \<and> mapped_type (Some ''Btn'') = Some ''check''
   \<and> mapped_type (Some ''Ch'') = Some ''choice''
   \<and> mapped_type (Some ''Rd'') = Some ''radio''
   \<and> (code \<notin> {''Tx'', ''Sig'', ''Btn'', ''Ch'', ''Rd''} \<longrightarrow> mapped_type (Some code) = Some code)
   \<and> mapped_type None = None"
proof -
  have run: "get_form_field_positions rnd (Opened rd) = (FoundFieldsNotice, recs) \<longrightarrow>
      (\<exists>st. pages_loop rnd (field_definitions_of rd) initial_state 1 (pages rd) = Inr st
         \<and> (\<forall>rec \<in> set recs. fr_field_type rec = mapped_type (field_type_of st (fr_name rec))))"
  proof
    assume "get_form_field_positions rnd (Opened rd) = (FoundFieldsNotice, recs)"
    from run_found [OF this] obtain st where
      loop: "pages_loop rnd (field_definitions_of rd) initial_state 1 (pages rd) = Inr st"
      and recs: "recs = map (make_record rnd st)
                   (sorted_list_of_set (all_field_names (field_definitions_of rd) st))"
      by blast
    have "\<forall>rec \<in> set recs. fr_field_type rec = mapped_type (field_type_of st (fr_name rec))"
      by (auto simp: recs make_record_def Let_def)
    with loop show "\<exists>st. pages_loop rnd (field_definitions_of rd) initial_state 1 (pages rd) = Inr st
         \<and> (\<forall>rec \<in> set recs. fr_field_type rec = mapped_type (field_type_of st (fr_name rec)))"
      by blast
  qed
  have unknown: "code \<notin> {''Tx'', ''Sig'', ''Btn'', ''Ch'', ''Rd''} \<longrightarrow>
      mapped_type (Some code) = Some code"
    by (simp add: mapped_type_def FIELD_TYPE_MAP_def)
  have known: "mapped_type (Some ''Tx'') = Some ''text''"
    "mapped_type (Some ''Sig'') = Some ''signature''"
    "mapped_type (Some ''Btn'') = Some ''check''"
    "mapped_type (Some ''Ch'') = Some ''choice''"
    "mapped_type (Some ''Rd'') = Some ''radio''"
    "mapped_type None = None"
    by (simp_all add: mapped_type_def FIELD_TYPE_MAP_def)
  from run unknown known show ?thesis
    by (intro conjI)
qed

theorem displayed_field_type_witness:
  "get_form_field_positions id (Opened example_reader) =
     (FoundFieldsNotice, [catalog_only_record, name_record])
   \<and> (\<exists>st. pages_loop id (field_definitions_of example_reader) initial_state 1
              (pages example_reader) = Inr st
         \<and> fr_field_type name_record = mapped_type (field_type_of st (fr_name name_record)))
   \<and> ''Foo'' \<notin> {''Tx'', ''Sig'', ''Btn'', ''Ch'', ''Rd''}
   \<and> mapped_type (Some ''Foo'') = Some ''Foo''"
proof -
  note inst =
    displayed_field_type [of id example_reader "[catalog_only_record, name_record]" "''Foo''"]
  have foo: "''Foo'' \<notin> {''Tx'', ''Sig'', ''Btn'', ''Ch'', ''Rd''}"
    by simp
  from inst [THEN conjunct1] example_run obtain st where
    loop: "pages_loop id (field_definitions_of example_reader) initial_state 1
             (pages example_reader) = Inr st"
    and all: "\<forall>rec \<in> set [catalog_only_record, name_record].
                fr_field_type rec = mapped_type (field_type_of st (fr_name rec))"
    by (elim impE exE conjE)
  from all have "fr_field_type name_record = mapped_type (field_type_of st (fr_name name_record))"
    by simp
  with loop have run: "\<exists>st. pages_loop id (field_definitions_of example_reader) initial_state 1
              (pages example_reader) = Inr st
         \<and> fr_field_type name_record = mapped_type (field_type_of st (fr_name name_record))"
    by (intro exI conjI)
  have unknown: "''Foo'' \<notin> {''Tx'', ''Sig'', ''Btn'', ''Ch'', ''Rd''} \<longrightarrow>
      mapped_type (Some ''Foo'') = Some ''Foo''"
    using inst by (elim conjE)
  from unknown foo have "mapped_type (Some ''Foo'') = Some ''Foo''"
    by (rule mp)
  with example_run run foo show ?thesis
    by (intro conjI)
qed

subsection \<open>A rect of the wrong length\<close>

text \<open>
  C10. For a named annotation whose effective rect is a non-empty array of a length other
  than four, on a page of known height, the appended widget has the all-null RectInfo as
  bounding box, the point with null coordinates as position, the size with null width and
  height, and a \<open>flutterConfig\<close> whose \<open>x\<close>, \<open>y\<close>, \<open>width\<close> and \<open>height\<close> are null.
\<close>

theorem wrong_arity_widget:
  assumes "normalise_name (name_obj_of a) = Some n"
    and "rect_of a = Some entries" and "entries \<noteq> []" and "length entries \<noteq> 4"
  shows "\<exists>st'.
     process_annotation rnd fd idx (Some h) st (Resolves a) = Inr st'
     \<and> widgets_of st' n = widgets_of st n @
         [\<lparr>w_page = Some idx,
           w_boundingBox =
             Some \<lparr>top_left = \<lparr>pt_x = None, pt_y = None\<rparr>,
                   top_right = \<lparr>pt_x = None, pt_y = None\<rparr>,
                   bottom_left = \<lparr>pt_x = None, pt_y = None\<rparr>,
                   bottom_right = \<lparr>pt_x = None, pt_y = None\<rparr>,
                   ri_width = None,
                   ri_height = None\<rparr>,
           w_position = Some \<lparr>pt_x = None, pt_y = None\<rparr>,
           w_size = Some \<lparr>sz_width = None, sz_height = None\<rparr>,
           w_flutterConfig =
             Some \<lparr>pageIndex = idx - 1, fc_x = None, fc_y = None, fc_width = None,
                   fc_height = None, positionUnit = ''points'', sizeUnit = ''points''\<rparr>\<rparr>]"
proof -
  from assms(2,4) have "resolve_rect (rect_of a) = Inr null_rect_info"
    by (simp add: resolve_rect_wrong_length)
  from process_annotation_named [OF assms(1) this] assms(2,3) show ?thesis
    by (simp add: widgets_of_update make_widget_def Let_def format_number_def
        null_rect_info_def truthy_def)
qed

theorem wrong_arity_widget_witness:
  "normalise_name (name_obj_of short_rect_annotation) = Some ''Short''
   \<and> rect_of short_rect_annotation = Some [Numeric 1, Numeric 2, Numeric 3]
   \<and> [Numeric 1, Numeric 2, Numeric 3] \<noteq> []
   \<and> length [Numeric 1, Numeric 2, Numeric 3] \<noteq> 4
   \<and> (\<exists>st'.
        process_annotation id [] 1 (Some 792) initial_state (Resolves short_rect_annotation) =
          Inr st'
        \<and> widgets_of st' ''Short'' = widgets_of initial_state ''Short'' @
         [\<lparr>w_page = Some 1,
           w_boundingBox =
             Some \<lparr>top_left = \<lparr>pt_x = None, pt_y = None\<rparr>,
                   top_right = \<lparr>pt_x = None, pt_y = None\<rparr>,
                   bottom_left = \<lparr>pt_x = None, pt_y = None\<rparr>,
                   bottom_right = \<lparr>pt_x = None, pt_y = None\<rparr>,
                   ri_width = None,
                   ri_height = None\<rparr>,
           w_position = Some \<lparr>pt_x = None, pt_y = None\<rparr>,
           w_size = Some \<lparr>sz_width = None, sz_height = None\<rparr>,
           w_flutterConfig =
             Some \<lparr>pageIndex = 0, fc_x = None, fc_y = None, fc_width = None,
                   fc_height = None, positionUnit = ''points'', sizeUnit = ''points''\<rparr>\<rparr>])"
proof -
  have nm: "normalise_name (name_obj_of short_rect_annotation) = Some ''Short''"
    by (simp add: run_defs)
  have rect: "rect_of short_rect_annotation = Some [Numeric 1, Numeric 2, Numeric 3]"
    by (simp add: run_defs)
  have ne: "[Numeric 1, Numeric 2, Numeric 3] \<noteq> []"
    by simp
  have len: "length [Numeric 1, Numeric 2, Numeric 3] \<noteq> 4"
    by simp
  from wrong_arity_widget [OF nm rect ne len, of id "[]" 1 792 initial_state] nm rect
  show ?thesis by simp
qed

end
